theory Spec2Isabelle
  imports Complex_Main "HOL-Library.AList"
begin

section \<open>Mood-based music player: a model of \<^verbatim>\<open>mood_player.py\<close>\<close>

text \<open>
  The program detects a mood (webcam votes, text sentiment or manual entry) and plays
  music for it, from Spotify or from local folders. Python strings are modelled as
  \<^typ>\<open>string\<close>, a character standing for one code point below 256; exceptions are
  values of sum types; console output and calls to the outside world are collected in
  an event log.

  The console is taken to stay open and to write every ASCII character and the dash of
  the banner: \<^verbatim>\<open>main\<close> prints its banner, with that dash, before the first turn, and
  raises there otherwise. Beyond that a \<^verbatim>\<open>print\<close> may raise: it does when its text
  holds a character that the console cannot encode.
\<close>

subsection \<open>String helpers: \<^verbatim>\<open>str.strip\<close>, \<^verbatim>\<open>str.lower\<close>\<close>

text \<open>
  \<^verbatim>\<open>str.isspace\<close> holds, below code point 256, for 9 to 13, 28 to 32, 133 and 160.
\<close>

definition is_space :: "char \<Rightarrow> bool" where
  "is_space c =
     (let n = (of_char c :: nat)
      in (9 \<le> n \<and> n \<le> 13) \<or> (28 \<le> n \<and> n \<le> 32) \<or> n = 133 \<or> n = 160)"

definition strip :: "string \<Rightarrow> string" where
  "strip s = rev (dropWhile is_space (rev (dropWhile is_space s)))"

text \<open>
  \<^verbatim>\<open>str.lower\<close>: the upper-case letters below 256 are \<^verbatim>\<open>A-Z\<close> (65 to 90) and
  192 to 222 without 215; the lower-case letter is 32 above, which sets bit 5.
\<close>

definition is_upper :: "char \<Rightarrow> bool" where
  "is_upper c =
     (let n = (of_char c :: nat)
      in (65 \<le> n \<and> n \<le> 90) \<or> (192 \<le> n \<and> n \<le> 222 \<and> n \<noteq> 215))"

definition lower_char :: "char \<Rightarrow> char" where
  "lower_char c =
     (if is_upper c
      then (case c of Char b0 b1 b2 b3 b4 b5 b6 b7 \<Rightarrow> Char b0 b1 b2 b3 b4 True b6 b7)
      else c)"

definition lower :: "string \<Rightarrow> string" where
  "lower s = map lower_char s"

subsection \<open>Configuration\<close>

text \<open>The dictionary \<^verbatim>\<open>MOOD_FOLDERS\<close>, in insertion order.\<close>

definition MOOD_FOLDERS :: "(string \<times> string) list" where
  "MOOD_FOLDERS =
     [(''happy'', ''music/happy''),
      (''sad'', ''music/sad''),
      (''angry'', ''music/angry''),
      (''surprise'', ''music/surprise''),
      (''neutral'', ''music/neutral''),
      (''fear'', ''music/fear''),
      (''disgust'', ''music/disgust'')]"

subsection \<open>Exceptions\<close>

text \<open>
  Paths are lists of components, relative to the working directory. The exceptions the
  model raises: \<^verbatim>\<open>ValueError\<close> (\<^verbatim>\<open>max\<close> of nothing), the \<^verbatim>\<open>OSError\<close>s of the file
  system, \<^verbatim>\<open>KeyError\<close> (a dictionary without the key), \<^verbatim>\<open>UnicodeEncodeError\<close> (a
  \<^verbatim>\<open>print\<close> of a text the console cannot encode), the \<^verbatim>\<open>RuntimeError\<close>s the program
  raises itself, and whatever a library (Spotipy, pygame) raises, with its message.
\<close>

type_synonym path = "string list"

datatype os_error =
    FileExistsError path
  | NotADirectoryError path
  | IsADirectoryError path
  | FileNotFoundError path

datatype exn =
    ValueError
  | KeyError string
  | UnicodeEncodeError
  | OSError os_error
  | RuntimeError string
  | LibraryError string

subsection \<open>Python's \<^verbatim>\<open>max\<close> with a key\<close>

text \<open>
  \<^verbatim>\<open>max(iterable, key=f)\<close> keeps the first item and replaces it only by an item whose
  key is strictly greater, so it returns the first item of maximal key; on an empty
  iterable it raises \<^verbatim>\<open>ValueError\<close>.
\<close>

fun max_from :: "('a \<Rightarrow> 'k::linorder) \<Rightarrow> 'a \<Rightarrow> 'a list \<Rightarrow> 'a" where
  "max_from key best [] = best"
| "max_from key best (x # xs) =
     (if key best < key x then max_from key x xs else max_from key best xs)"

definition py_max :: "('a \<Rightarrow> 'k::linorder) \<Rightarrow> 'a list \<Rightarrow> exn + 'a" where
  "py_max key xs = (case xs of [] \<Rightarrow> Inl ValueError | x # rest \<Rightarrow> Inr (max_from key x rest))"

subsection \<open>Mood detection from the webcam\<close>

text \<open>
  One \<^verbatim>\<open>cap.read()\<close> either fails or gives a frame; for a frame the classifier returns
  a list of faces, each with its dictionary of emotion scores (label and score, in the
  dictionary's order). Scores are compared exactly, so they are modelled as reals.
\<close>

type_synonym face = "(string \<times> real) list"

datatype frame_read = ReadFailed | Frame "face list"

text \<open>
  The camera of one detection: whether it opened, and what the successive reads give.
  A camera with no read left fails the read.
\<close>

record camera =
  isOpened :: bool
  reads :: "frame_read list"

text \<open>
  \<^verbatim>\<open>max(face_emotions, key=face_emotions.get)\<close>: the keys of a dictionary are distinct,
  so the value looked up for a key is the second component of its item.
\<close>

definition top_emotion :: "face \<Rightarrow> exn + string" where
  "top_emotion face_emotions = map_sum id fst (py_max snd face_emotions)"

text \<open>
  The capture loop of \<^verbatim>\<open>detect_mood\<close> (with \<^verbatim>\<open>display=False\<close>, as \<^verbatim>\<open>main\<close> builds the
  detector): at most \<^verbatim>\<open>num_frames\<close> reads, stopping at the first failed one; a frame
  with a face votes for the top emotion of its first face.
\<close>

fun capture_votes :: "nat \<Rightarrow> frame_read list \<Rightarrow> string list \<Rightarrow> exn + string list" where
  "capture_votes 0 rs emotion_votes = Inr emotion_votes"
| "capture_votes (Suc n) [] emotion_votes = Inr emotion_votes"
| "capture_votes (Suc n) (ReadFailed # rs) emotion_votes = Inr emotion_votes"
| "capture_votes (Suc n) (Frame results # rs) emotion_votes =
     (case results of
        [] \<Rightarrow> capture_votes n rs emotion_votes
      | face # _ \<Rightarrow>
          (case top_emotion face of
             Inl e \<Rightarrow> Inl e
           | Inr emotion \<Rightarrow> capture_votes n rs (emotion_votes @ [emotion])))"

text \<open>
  The end of \<^verbatim>\<open>detect_mood\<close>, which the specification calls \<^verbatim>\<open>aggregate\<close>:
  \<^verbatim>\<open>
  if not emotion_votes:
      return None
  mood = max(set(emotion_votes), key=emotion_votes.count)
  return mood
  \<close>
  Python does not fix the order in which a set is iterated (for strings it follows
  their hashes, which are salted per process). The order is therefore a parameter:
  \<open>order\<close> is the sequence in which \<^verbatim>\<open>set(emotion_votes)\<close> is iterated. It is an
  iteration of that set when \<open>set_order\<close> holds: each member once.
\<close>

definition set_order :: "'a list \<Rightarrow> 'a list \<Rightarrow> bool" where
  "set_order order xs = (distinct order \<and> set order = set xs)"

definition aggregate :: "string list \<Rightarrow> string list \<Rightarrow> exn + string option" where
  "aggregate order emotion_votes =
     (if emotion_votes = [] then Inr None
      else map_sum id Some (py_max (count_list emotion_votes) order))"

subsection \<open>Events\<close>

text \<open>
  What a run does to the outside world, in order: a \<^verbatim>\<open>print\<close> with its arguments (a
  string, or an exception to be shown), a call of the Spotify client, a call of the
  local player, and the playing of a file by the mixer. Calls that can fail carry
  their result: \<open>None\<close> when the call returned, the exception otherwise.
\<close>

datatype arg = S string | E exn

datatype event =
    Print "arg list"
  | Search string
  | Devices
  | StartPlayback string string "exn option"
  | PlayRandomForMood string
  | MixerPlay string "exn option"

text \<open>
  \<^verbatim>\<open>WebcamMoodDetector.detect_mood\<close>: \<open>iter_set\<close> gives, for the votes collected, the
  order in which their set is iterated. The result is the log and the value returned
  or the exception raised.
\<close>

definition detect_mood ::
  "(string list \<Rightarrow> string list) \<Rightarrow> camera \<Rightarrow> nat \<Rightarrow> event list \<times> (exn + string option)" where
  "detect_mood iter_set cap num_frames =
     (if \<not> isOpened cap
      then ([Print [S ''Cannot open webcam. Check camera index or permissions.'']], Inr None)
      else (case capture_votes num_frames (reads cap) [] of
              Inl e \<Rightarrow> ([], Inl e)
            | Inr emotion_votes \<Rightarrow> ([], aggregate (iter_set emotion_votes) emotion_votes)))"

subsection \<open>Mood detection from text\<close>

text \<open>
  \<^verbatim>\<open>TextMoodDetector.detect_mood\<close>. The sentiment scorer is a parameter; the polarity is
  a real number, compared with the thresholds exactly as floating-point comparison does.
\<close>

definition polarity_mood :: "real \<Rightarrow> string" where
  "polarity_mood polarity =
     (if polarity > 0.3 then ''happy''
      else if polarity < - 0.3 then ''sad''
      else ''neutral'')"

definition text_detect_mood :: "(string \<Rightarrow> real) \<Rightarrow> string \<Rightarrow> string" where
  "text_detect_mood sentiment_polarity text = polarity_mood (sentiment_polarity text)"

subsection \<open>The file system\<close>

text \<open>
  \<^verbatim>\<open>Path(s)\<close> for a relative path string: the components between slashes, empty
  components and \<^verbatim>\<open>.\<close> dropped. \<^verbatim>\<open>str\<close> of a path joins them again.
\<close>

fun path_parts :: "string \<Rightarrow> string \<Rightarrow> path" where
  "path_parts cur [] = (if cur = [] \<or> cur = ''.'' then [] else [cur])"
| "path_parts cur (c # cs) =
     (if c = CHR ''/''
      then (if cur = [] \<or> cur = ''.'' then path_parts [] cs else cur # path_parts [] cs)
      else path_parts (cur @ [c]) cs)"

definition Path :: "string \<Rightarrow> path" where
  "Path s = path_parts [] s"

fun path_str :: "path \<Rightarrow> string" where
  "path_str [] = ''.''"
| "path_str [c] = c"
| "path_str (c # d # cs) = c @ ''/'' @ path_str (d # cs)"

text \<open>
  \<^verbatim>\<open>Path.suffix\<close>: with \<open>i\<close> the position of the last dot of the name, the name from
  \<open>i\<close> on when \<open>0 < i < len(name) - 1\<close>, and the empty string otherwise.
\<close>

definition path_suffix :: "path \<Rightarrow> string" where
  "path_suffix p =
     (if p = [] then []
      else (let name = last p;
                ext = rev (takeWhile (\<lambda>c. c \<noteq> CHR ''.'') (rev name));
                stem = take (length name - length ext - 1) name
            in if CHR ''.'' \<notin> set name \<or> stem = [] \<or> ext = [] then []
               else CHR ''.'' # ext))"

text \<open>
  The file system is an association list from paths to nodes, in the order in which a
  directory is listed. The working directory is the empty path and always exists.
\<close>

datatype node = Dir | File string

type_synonym filesystem = "(path \<times> node) list"

definition path_exists :: "filesystem \<Rightarrow> path \<Rightarrow> bool" where
  "path_exists fs p = (p = [] \<or> map_of fs p \<noteq> None)"

definition is_dir :: "filesystem \<Rightarrow> path \<Rightarrow> bool" where
  "is_dir fs p = (p = [] \<or> map_of fs p = Some Dir)"

text \<open>
  \<^verbatim>\<open>p.mkdir(parents=True, exist_ok=True)\<close>, walking down from the working directory:
  \<open>pre\<close> is the part of the path already known to be a directory. A missing component
  is created, a directory is kept, and a regular file in the way raises.
\<close>

fun make_dirs :: "filesystem \<Rightarrow> path \<Rightarrow> path \<Rightarrow> os_error + filesystem" where
  "make_dirs fs pre [] = Inr fs"
| "make_dirs fs pre (c # cs) =
     (let p = pre @ [c]
      in case map_of fs p of
           None \<Rightarrow> make_dirs (fs @ [(p, Dir)]) p cs
         | Some Dir \<Rightarrow> make_dirs fs p cs
         | Some (File _) \<Rightarrow>
             Inl (if cs = [] then FileExistsError p else NotADirectoryError (p @ cs)))"

definition mkdir :: "filesystem \<Rightarrow> path \<Rightarrow> os_error + filesystem" where
  "mkdir fs p = make_dirs fs [] p"

text \<open>\<^verbatim>\<open>p.write_text(data)\<close> creates the file or replaces its content.\<close>

definition write_text :: "filesystem \<Rightarrow> path \<Rightarrow> string \<Rightarrow> os_error + filesystem" where
  "write_text fs p data =
     (if p = [] then Inl (IsADirectoryError p)
      else if \<not> is_dir fs (butlast p)
      then Inl (if path_exists fs (butlast p) then NotADirectoryError p
                else FileNotFoundError p)
      else (case map_of fs p of
              Some Dir \<Rightarrow> Inl (IsADirectoryError p)
            | _ \<Rightarrow> Inr (AList.update p (File data) fs)))"

text \<open>\<^verbatim>\<open>p.iterdir()\<close>: the entries directly under a directory.\<close>

definition iterdir :: "filesystem \<Rightarrow> path \<Rightarrow> os_error + path list" where
  "iterdir fs p =
     (if is_dir fs p then Inr (filter (\<lambda>q. q \<noteq> [] \<and> butlast q = p) (map fst fs))
      else if path_exists fs p then Inl (NotADirectoryError p)
      else Inl (FileNotFoundError p))"

subsection \<open>Utilities\<close>

text \<open>
  \<^verbatim>\<open>ensure_music_folders\<close>: for each item of \<^verbatim>\<open>MOOD_FOLDERS\<close>, in order, a folder that
  does not exist is created and given a \<^verbatim>\<open>README.txt\<close>.
\<close>

definition readme_text :: "string \<Rightarrow> string" where
  "readme_text mood =
     ''Place mp3 files for mood '' @ [CHR 0x27] @ mood @ [CHR 0x27] @ '' in this folder.''"

fun ensure_folders :: "(string \<times> string) list \<Rightarrow> filesystem \<Rightarrow> os_error + filesystem" where
  "ensure_folders [] fs = Inr fs"
| "ensure_folders ((mood, folder) # items) fs =
     (let p = Path folder
      in if \<not> path_exists fs p
         then (case mkdir fs p of
                 Inl e \<Rightarrow> Inl e
               | Inr fs1 \<Rightarrow>
                   (case write_text fs1 (p @ [''README.txt'']) (readme_text mood) of
                      Inl e \<Rightarrow> Inl e
                    | Inr fs2 \<Rightarrow> ensure_folders items fs2))
         else ensure_folders items fs)"

definition ensure_music_folders :: "filesystem \<Rightarrow> os_error + filesystem" where
  "ensure_music_folders fs = ensure_folders MOOD_FOLDERS fs"

definition audio_suffixes :: "string list" where
  "audio_suffixes = [''.mp3'', ''.wav'', ''.ogg'', ''.flac'']"

definition list_music_files :: "filesystem \<Rightarrow> string \<Rightarrow> os_error + string list" where
  "list_music_files fs folder =
     (let p = Path folder
      in if \<not> path_exists fs p then Inr []
         else (case iterdir fs p of
                 Inl e \<Rightarrow> Inl e
               | Inr xs \<Rightarrow>
                   Inr (map path_str
                          (filter (\<lambda>x. lower (path_suffix x) \<in> set audio_suffixes) xs))))"

subsection \<open>The console\<close>

text \<open>
  A console is given by the characters beyond ASCII that it can encode. A text is
  writable when each of its characters is ASCII or encoded by the console.
\<close>

type_synonym console = "char \<Rightarrow> bool"

definition writable :: "console \<Rightarrow> string \<Rightarrow> bool" where
  "writable console s = list_all (\<lambda>c. (of_char c :: nat) < 128 \<or> console c) s"

text \<open>
  \<^verbatim>\<open>repr\<close> of a string escapes the characters that are not printable: below 256, those
  up to 160 that are not ASCII, and 173. The escapes are ASCII.
\<close>

definition repr_writable :: "console \<Rightarrow> string \<Rightarrow> bool" where
  "repr_writable console s =
     list_all (\<lambda>c. (of_char c :: nat) < 161 \<or> (of_char c :: nat) = 173 \<or> console c) s"

fun os_error_path :: "os_error \<Rightarrow> path" where
  "os_error_path (FileExistsError p) = p"
| "os_error_path (NotADirectoryError p) = p"
| "os_error_path (IsADirectoryError p) = p"
| "os_error_path (FileNotFoundError p) = p"

text \<open>
  Whether \<^verbatim>\<open>str(e)\<close> is writable. The texts of \<^verbatim>\<open>ValueError\<close> and
  \<^verbatim>\<open>UnicodeEncodeError\<close> are ASCII; that of a \<^verbatim>\<open>KeyError\<close> is the \<^verbatim>\<open>repr\<close> of the key,
  that of an \<^verbatim>\<open>OSError\<close> ends with the \<^verbatim>\<open>repr\<close> of the path; the others are their
  message.
\<close>

fun exn_writable :: "console \<Rightarrow> exn \<Rightarrow> bool" where
  "exn_writable console ValueError = True"
| "exn_writable console (KeyError k) = repr_writable console k"
| "exn_writable console UnicodeEncodeError = True"
| "exn_writable console (OSError e) = repr_writable console (path_str (os_error_path e))"
| "exn_writable console (RuntimeError m) = writable console m"
| "exn_writable console (LibraryError m) = writable console m"

fun arg_writable :: "console \<Rightarrow> arg \<Rightarrow> bool" where
  "arg_writable console (S s) = writable console s"
| "arg_writable console (E e) = exn_writable console e"

text \<open>
  \<^verbatim>\<open>print(*args)\<close>: \<open>None\<close> when the line was written, the exception otherwise.
\<close>

definition py_print :: "console \<Rightarrow> arg list \<Rightarrow> exn option" where
  "py_print console args =
     (if list_all (arg_writable console) args then None else Some UnicodeEncodeError)"

text \<open>
  A step of a run gives its log and the exception it raised, if any. \<open>say\<close> is a
  \<^verbatim>\<open>print\<close> as a step: a line that was written is in the log, one that raised is not.
  \<open>andthen\<close> runs a second step after a first one that did not raise. The lines whose
  text is fixed in the program are ASCII and are logged without asking the console.
\<close>

definition say :: "console \<Rightarrow> arg list \<Rightarrow> event list \<times> exn option" where
  "say console args =
     (case py_print console args of None \<Rightarrow> ([Print args], None) | Some e \<Rightarrow> ([], Some e))"

definition andthen ::
  "event list \<times> exn option \<Rightarrow> event list \<times> exn option \<Rightarrow> event list \<times> exn option" where
  "andthen a b =
     (case a of
        (l, Some e) \<Rightarrow> (l, Some e)
      | (l, None) \<Rightarrow> (case b of (l2, x) \<Rightarrow> (l @ l2, x)))"

subsection \<open>The local player\<close>

text \<open>
  \<^verbatim>\<open>LocalMusicPlayer.play_file\<close>. The mixer is a parameter: for a file, \<open>None\<close> when
  loading, playing and waiting for the end of the track ran through, and the exception
  otherwise, which \<^verbatim>\<open>play_file\<close> catches and prints. The first \<^verbatim>\<open>print\<close> stands before
  the \<^verbatim>\<open>try\<close> and the second in the handler: an exception of either leaves \<^verbatim>\<open>play_file\<close>.
\<close>

definition play_file :: "console \<Rightarrow> (string \<Rightarrow> exn option) \<Rightarrow> string \<Rightarrow> event list \<times> exn option" where
  "play_file console mixer filepath =
     andthen (say console [S (''Playing: '' @ filepath)])
       (case mixer filepath of
          None \<Rightarrow> ([MixerPlay filepath None], None)
        | Some e \<Rightarrow>
            andthen ([MixerPlay filepath (Some e)], None)
              (say console [S ''Failed to play file:'', E e]))"

text \<open>
  \<^verbatim>\<open>LocalMusicPlayer.play_random_for_mood\<close>. The result is the log and the exception
  that escaped, if any. \<^verbatim>\<open>random.choice(files)\<close> is \<open>files ! (r mod length files)\<close>
  for a random draw \<open>r\<close>.
\<close>

definition play_random_for_mood ::
  "console \<Rightarrow> filesystem \<Rightarrow> (string \<Rightarrow> exn option) \<Rightarrow> nat \<Rightarrow> string
     \<Rightarrow> event list \<times> exn option" where
  "play_random_for_mood console fs mixer r mood =
     (case map_of MOOD_FOLDERS mood of
        None \<Rightarrow>
          andthen ([PlayRandomForMood mood], None)
            (say console [S ''No folder mapped for mood:'', S mood])
      | Some folder \<Rightarrow>
          if folder = []
          then andthen ([PlayRandomForMood mood], None)
                 (say console [S ''No folder mapped for mood:'', S mood])
          else (case list_music_files fs folder of
                  Inl e \<Rightarrow> ([PlayRandomForMood mood], Some (OSError e))
                | Inr files \<Rightarrow>
                    if files = []
                    then andthen ([PlayRandomForMood mood], None)
                           (say console
                              [S (''No music files found in '' @ folder @
                                  ''. Please add mp3/ogg/wav files there.'')])
                    else andthen ([PlayRandomForMood mood], None)
                           (play_file console mixer (files ! (r mod length files)))))"

subsection \<open>The Spotify controller\<close>

text \<open>
  The Spotify client: a search gives the playlist items found, the device enumeration
  the devices, each in the order of the response; each call may raise instead. A device
  has an id and may lack a name.
\<close>

datatype playlist = Playlist (pl_uri: string) (pl_name: string)

datatype device = Device (dev_id: string) (dev_name: "string option")

record spotify =
  search :: "string \<Rightarrow> exn + playlist list"
  devices :: "exn + device list"
  start_playback :: "string \<Rightarrow> string \<Rightarrow> exn option"

definition find_playlist_for_mood ::
  "spotify \<Rightarrow> string \<Rightarrow> event list \<times> (exn + (string \<times> string) option)" where
  "find_playlist_for_mood sp mood_query =
     (let q = mood_query @ '' playlist''
      in ([Search q],
          (case search sp q of
             Inl e \<Rightarrow> Inl e
           | Inr items \<Rightarrow>
               (case items of
                  [] \<Rightarrow> Inr None
                | item # _ \<Rightarrow> Inr (Some (pl_uri item, pl_name item))))))"

text \<open>
  \<^verbatim>\<open>start_playback_by_uri\<close>: after \<^verbatim>\<open>sp.start_playback\<close> has returned, the name of the
  device is looked up and printed; both can raise.
\<close>

definition start_playback_by_uri ::
  "console \<Rightarrow> spotify \<Rightarrow> string \<Rightarrow> event list \<times> exn option" where
  "start_playback_by_uri console sp playlist_uri =
     (case devices sp of
        Inl e \<Rightarrow> ([Devices], Some e)
      | Inr device_list \<Rightarrow>
          (case device_list of
             [] \<Rightarrow>
               ([Devices],
                Some (RuntimeError
                  ''No active Spotify devices found. Start Spotify on a device and try again.''))
           | d # _ \<Rightarrow>
               (let device_id = dev_id d
                in case start_playback sp device_id playlist_uri of
                     Some e \<Rightarrow>
                       ([Devices, StartPlayback device_id playlist_uri (Some e)], Some e)
                   | None \<Rightarrow>
                       (case dev_name d of
                          None \<Rightarrow>
                            ([Devices, StartPlayback device_id playlist_uri None],
                             Some (KeyError ''name''))
                        | Some name \<Rightarrow>
                            andthen ([Devices, StartPlayback device_id playlist_uri None], None)
                              (say console [S ''Playback started on device:'', S name])))))"

subsection \<open>The command loop\<close>

text \<open>
  The body of the \<^verbatim>\<open>try\<close> in \<^verbatim>\<open>main\<close>: search, then either the local player (nothing
  found) or remote playback. The result is the log and the exception that left the
  body, if any. The line about the playlist found has the dash of the banner in the
  source; the model writes \<^verbatim>\<open>-\<close>, and the line raises when the console cannot write
  the name of the playlist. The line about the tip, after the start, is fixed ASCII
  text, which the console writes.
\<close>

definition try_spotify ::
  "console \<Rightarrow> spotify \<Rightarrow> filesystem \<Rightarrow> (string \<Rightarrow> exn option) \<Rightarrow> nat \<Rightarrow> string
     \<Rightarrow> event list \<times> exn option" where
  "try_spotify console sp fs mixer r mood =
     (case find_playlist_for_mood sp mood of
        (l1, Inl e) \<Rightarrow> (l1, Some e)
      | (l1, Inr None) \<Rightarrow>
          andthen
            (l1 @ [Print [S ''No Spotify playlist found for mood. Falling back to local playback.'']],
             None)
            (play_random_for_mood console fs mixer r mood)
      | (l1, Inr (Some (uri, name))) \<Rightarrow>
          andthen
            (andthen
               (andthen (l1, None)
                  (say console [S (''Found playlist: '' @ name @ '' - starting playback...'')]))
               (start_playback_by_uri console sp uri))
            ([Print [S ''Tip: Control playback in your Spotify app.'']], None))"

text \<open>
  The playback part of one turn of the loop (from \<^verbatim>\<open># Decide playback route\<close> on):
  \<open>play_line\<close> is the line read for the choice. Every exception of the \<^verbatim>\<open>try\<close> body is
  caught, printed, and followed by the local player; an exception of the handler, or of
  the local player outside the \<^verbatim>\<open>try\<close>, leaves the turn.
\<close>

definition route_playback ::
  "console \<Rightarrow> spotify option \<Rightarrow> filesystem \<Rightarrow> (string \<Rightarrow> exn option) \<Rightarrow> nat \<Rightarrow> string
     \<Rightarrow> string \<Rightarrow> event list \<times> exn option" where
  "route_playback console spotify_controller fs mixer r play_line mood =
     (let menu = [Print [S ''\<newline>Playback options:''], Print [S ''1) Play local music (default)'']]
                 @ (if spotify_controller \<noteq> None then [Print [S ''2) Try Spotify playlists'']]
                    else []);
          play_choice = (if strip play_line = [] then ''1'' else strip play_line)
      in case spotify_controller of
           Some sp \<Rightarrow>
             if play_choice = ''2''
             then (case try_spotify console sp fs mixer r mood of
                     (l, None) \<Rightarrow> (menu @ l, None)
                   | (l, Some e) \<Rightarrow>
                       andthen
                         (andthen (menu @ l, None) (say console [S ''Spotify playback error:'', E e]))
                         (andthen ([Print [S ''Falling back to local music.'']], None)
                            (play_random_for_mood console fs mixer r mood)))
             else andthen (menu, None) (play_random_for_mood console fs mixer r mood)
         | None \<Rightarrow> andthen (menu, None) (play_random_for_mood console fs mixer r mood))"

text \<open>
  The mood part of one turn of the loop. A turn goes on to playback with a mood, goes
  back to the menu (\<^verbatim>\<open>continue\<close>) or leaves the loop (\<^verbatim>\<open>break\<close>).
\<close>

datatype acquired = Mood string | Continue | Break

definition menu_lines :: "event list" where
  "menu_lines =
     [Print [S ''\<newline>Choose input method:''],
      Print [S ''1) Webcam emotion detection''],
      Print [S ''2) Type your mood/journal (text sentiment)''],
      Print [S ''3) Manual mood selection''],
      Print [S ''4) Exit'']]"

text \<open>\<^verbatim>\<open>sep.join(xs)\<close>.\<close>

fun join :: "string \<Rightarrow> string list \<Rightarrow> string" where
  "join sep [] = []"
| "join sep [x] = x"
| "join sep (x # y # xs) = x @ sep @ join sep (y # xs)"

text \<open>
  Choice 1: \<^verbatim>\<open>if not mood\<close> holds for \<^verbatim>\<open>None\<close> and for the empty string. The label
  detected comes from the classifier and is printed through the console.
\<close>

definition webcam_choice ::
  "console \<Rightarrow> (string list \<Rightarrow> string list) \<Rightarrow> camera \<Rightarrow> event list \<times> (exn + acquired)" where
  "webcam_choice console iter_set cap =
     (case detect_mood iter_set cap 12 of
        (l, Inl e) \<Rightarrow>
          (Print [S ''Detecting mood from webcam... (look at camera)''] # l, Inl e)
      | (l, Inr None) \<Rightarrow>
          (Print [S ''Detecting mood from webcam... (look at camera)''] # l
             @ [Print [S ''Could not detect mood from webcam.'']], Inr Continue)
      | (l, Inr (Some mood)) \<Rightarrow>
          if mood = []
          then (Print [S ''Detecting mood from webcam... (look at camera)''] # l
                  @ [Print [S ''Could not detect mood from webcam.'']], Inr Continue)
          else (case say console [S ''Detected mood:'', S mood] of
                  (l2, None) \<Rightarrow>
                    (Print [S ''Detecting mood from webcam... (look at camera)''] # l @ l2,
                     Inr (Mood mood))
                | (l2, Some e) \<Rightarrow>
                    (Print [S ''Detecting mood from webcam... (look at camera)''] # l @ l2,
                     Inl e)))"

text \<open>Choice 2: \<open>text\<close> is the line read; the mood printed is one of three fixed words.\<close>

definition text_choice :: "(string \<Rightarrow> real) \<Rightarrow> string \<Rightarrow> event list \<times> (exn + acquired)" where
  "text_choice sentiment_polarity text =
     (let mood = text_detect_mood sentiment_polarity text
      in ([Print [S ''Inferred mood from text:'', S mood]], Inr (Mood mood)))"

text \<open>
  Choice 3: \<open>line\<close> is the line read after \<^verbatim>\<open>Type mood:\<close>.
  \<^verbatim>\<open>
  mood = input("Type mood: ").strip().lower()
  if mood not in MOOD_FOLDERS:
      print("Mood not recognized. Try again.")
      continue
  \<close>
\<close>

definition manual_choice :: "string \<Rightarrow> event list \<times> (exn + acquired)" where
  "manual_choice line =
     (let mood = lower (strip line)
      in if mood \<notin> set (map fst MOOD_FOLDERS)
         then ([Print [S ''Available moods:'', S (join '', '' (map fst MOOD_FOLDERS))],
                Print [S ''Mood not recognized. Try again.'']], Inr Continue)
         else ([Print [S ''Available moods:'', S (join '', '' (map fst MOOD_FOLDERS))]],
               Inr (Mood mood)))"

text \<open>
  The dispatch on the menu choice: \<open>choice_line\<close> is the line read for the menu and
  \<open>line\<close> the one read next by choices 2 and 3.
\<close>

definition acquire_mood ::
  "console \<Rightarrow> (string list \<Rightarrow> string list) \<Rightarrow> camera \<Rightarrow> (string \<Rightarrow> real) \<Rightarrow> string \<Rightarrow> string
     \<Rightarrow> event list \<times> (exn + acquired)" where
  "acquire_mood console iter_set cap sentiment_polarity choice_line line =
     (let choice = strip choice_line;
          (l, res) =
            (if choice = ''1'' then webcam_choice console iter_set cap
             else if choice = ''2'' then text_choice sentiment_polarity line
             else if choice = ''3'' then manual_choice line
             else if choice = ''4'' then ([Print [S ''Goodbye!'']], Inr Break)
             else ([Print [S ''Invalid choice.'']], Inr Continue))
      in (menu_lines @ l, res))"

text \<open>
  One turn of \<^verbatim>\<open>while True\<close>: the mood, then the playback. The result says whether the
  loop goes on (\<open>True\<close>) or was left by \<^verbatim>\<open>break\<close>; an exception that escapes ends the
  program.
\<close>

definition loop_turn ::
  "console \<Rightarrow> (string list \<Rightarrow> string list) \<Rightarrow> camera \<Rightarrow> (string \<Rightarrow> real) \<Rightarrow> spotify option
     \<Rightarrow> filesystem \<Rightarrow> (string \<Rightarrow> exn option) \<Rightarrow> nat \<Rightarrow> string \<Rightarrow> string \<Rightarrow> string
     \<Rightarrow> event list \<times> (exn + bool)" where
  "loop_turn console iter_set cap sentiment_polarity spotify_controller fs mixer r
       choice_line line play_line =
     (case acquire_mood console iter_set cap sentiment_polarity choice_line line of
        (l, Inl e) \<Rightarrow> (l, Inl e)
      | (l, Inr Continue) \<Rightarrow> (l, Inr True)
      | (l, Inr Break) \<Rightarrow> (l, Inr False)
      | (l, Inr (Mood mood)) \<Rightarrow>
          (case route_playback console spotify_controller fs mixer r play_line mood of
             (l2, None) \<Rightarrow> (l @ l2, Inr True)
           | (l2, Some e) \<Rightarrow> (l @ l2, Inl e)))"

subsection \<open>Reading the log\<close>


definition backend_action :: "event \<Rightarrow> bool" where
  "backend_action ev = (case ev of Print _ \<Rightarrow> False | _ \<Rightarrow> True)"







subsection \<open>Sample inputs\<close>

text \<open>
  An iteration of a set in the order of first occurrence, a camera that sees no face, a
  scorer, a console with the code page 1251 (of the characters from 128 to 255 it
  encodes the fifteen listed, and no accented letter), two mixers, Spotify clients and
  music folders.
\<close>

definition first_seen :: "string list \<Rightarrow> string list" where
  "first_seen xs = rev (remdups (rev xs))"

definition camera_without_face :: camera where
  "camera_without_face = \<lparr>isOpened = True, reads = [Frame [], Frame []]\<rparr>"

definition flat_polarity :: "string \<Rightarrow> real" where
  "flat_polarity text = 0"

definition cp1251 :: console where
  "cp1251 c =
     ((of_char c :: nat) \<in> {160, 164, 166, 167, 169, 171, 172, 173, 174, 176, 177, 181, 182, 183, 187})"

definition working_mixer :: "string \<Rightarrow> exn option" where
  "working_mixer filepath = None"



definition found_two :: "string \<Rightarrow> exn + playlist list" where
  "found_two q =
     Inr [Playlist ''spotify:playlist:1'' ''Happy Hits'',
          Playlist ''spotify:playlist:2'' ''Feel Good'']"



definition start_ok :: "string \<Rightarrow> string \<Rightarrow> exn option" where
  "start_ok device_id context_uri = None"



definition spotify_ready :: spotify where
  "spotify_ready =
     \<lparr>search = found_two,
      devices = Inr [Device ''d1'' (Some ''Phone''), Device ''d2'' (Some ''Laptop'')],
      start_playback = start_ok\<rparr>"



definition fs_one_track :: filesystem where
  "fs_one_track =
     [([''music''], Dir),
      ([''music'', ''happy''], Dir),
      ([''music'', ''happy'', ''README.txt''], File ''notes''),
      ([''music'', ''happy'', ''song.mp3''], File ''audio'')]"


text \<open>The folders as a first run on an empty directory leaves them, and a track.\<close>

definition bootstrapped :: filesystem where
  "bootstrapped =
     ([''music''], Dir) #
     concat (map (\<lambda>(mood, folder). [(Path folder, Dir),
                                     (Path folder @ [''README.txt''], File (readme_text mood))])
               MOOD_FOLDERS)"

definition song :: "path \<times> node" where
  "song = ([''music'', ''happy'', ''song.mp3''], File ''audio'')"

section \<open>Properties\<close>

subsection \<open>The vote\<close>

text \<open>
  \<open>max_from\<close> returns the first item of maximal key: the items before it have a
  strictly smaller key, the items after it a key that is not greater.
\<close>

lemma max_from_ge_best: "key best \<le> key (max_from key best xs)"
proof (induction xs arbitrary: best)
  case Nil
  show ?case by simp
next
  case (Cons x xs)
  show ?case
  proof (cases "key best < key x")
    case True
    have "key x \<le> key (max_from key x xs)" by (rule Cons.IH)
    with True show ?thesis by simp
  next
    case False
    with Cons.IH [of best] show ?thesis by simp
  qed
qed

lemma max_from_first_max:
  "\<exists>pre post. best # xs = pre @ max_from key best xs # post
     \<and> (\<forall>x\<in>set pre. key x < key (max_from key best xs))
     \<and> (\<forall>x\<in>set post. key x \<le> key (max_from key best xs))"
proof (induction xs arbitrary: best)
  case Nil
  have "[best] = [] @ best # []" by simp
  then show ?case by fastforce
next
  case (Cons x xs)
  show ?case
  proof (cases "key best < key x")
    case True
    then have m: "max_from key best (x # xs) = max_from key x xs" by simp
    from Cons.IH [of x] obtain pre post where
      h: "x # xs = pre @ max_from key x xs # post"
         "\<forall>y\<in>set pre. key y < key (max_from key x xs)"
         "\<forall>y\<in>set post. key y \<le> key (max_from key x xs)"
      by blast
    have "key best < key (max_from key x xs)"
      using True max_from_ge_best [of key x xs] by simp
    then have "\<forall>y\<in>set (best # pre). key y < key (max_from key x xs)"
      using h(2) by simp
    moreover have "best # x # xs = (best # pre) @ max_from key x xs # post"
      using h(1) by simp
    ultimately show ?thesis
      unfolding m using h(3) by blast
  next
    case False
    define m where "m = max_from key best xs"
    have mm: "max_from key best (x # xs) = m" using False by (simp add: m_def)
    from Cons.IH [of best] obtain pre post where
      h: "best # xs = pre @ m # post"
         "\<forall>y\<in>set pre. key y < key m"
         "\<forall>y\<in>set post. key y \<le> key m"
      unfolding m_def by blast
    show ?thesis
    proof (cases pre)
      case Nil
      with h(1) have eq: "m = best" "post = xs" by simp_all
      have "best # x # xs = [] @ best # (x # xs)" by simp
      moreover have "\<forall>y\<in>set (x # xs). key y \<le> key best"
        using h(3) eq False by auto
      moreover have "\<forall>y\<in>set ([]::'a list). key y < key best" by simp
      ultimately show ?thesis
        unfolding mm eq(1) by blast
    next
      case (Cons a as)
      with h(1) have a: "a = best" and xs: "xs = as @ m # post" by simp_all
      have "key best < key m"
        using h(2) Cons a by simp
      then have "key x < key m"
        using False by simp
      then have "\<forall>y\<in>set (best # x # as). key y < key m"
        using h(2) Cons a by simp
      moreover have "best # x # xs = (best # x # as) @ m # post"
        using xs by simp
      ultimately show ?thesis
        unfolding mm using h(3) by blast
    qed
  qed
qed

lemma py_max_first_max:
  assumes "xs \<noteq> []"
  shows "\<exists>m pre post. py_max key xs = Inr m \<and> xs = pre @ m # post
     \<and> (\<forall>x\<in>set pre. key x < key m) \<and> (\<forall>x\<in>set post. key x \<le> key m)"
proof -
  from assms obtain b rest where xs: "xs = b # rest" by (cases xs) auto
  have "py_max key xs = Inr (max_from key b rest)" by (simp add: py_max_def xs)
  with max_from_first_max [of b rest key] xs show ?thesis by metis
qed

lemma set_order_nonempty: "set_order order xs \<Longrightarrow> xs \<noteq> [] \<Longrightarrow> order \<noteq> []"
  by (auto simp: set_order_def)

lemma aggregate_result:
  assumes "set_order order emotion_votes" and "emotion_votes \<noteq> []"
  shows "\<exists>m pre post. aggregate order emotion_votes = Inr (Some m)
           \<and> order = pre @ m # post
           \<and> m \<in> set emotion_votes
           \<and> (\<forall>x\<in>set emotion_votes. count_list emotion_votes x \<le> count_list emotion_votes m)
           \<and> (\<forall>x\<in>set pre. count_list emotion_votes x < count_list emotion_votes m)"
proof -
  have ne: "order \<noteq> []" using assms by (rule set_order_nonempty)
  from py_max_first_max [OF ne, of "count_list emotion_votes"] obtain m pre post where
    h: "py_max (count_list emotion_votes) order = Inr m" "order = pre @ m # post"
       "\<forall>x\<in>set pre. count_list emotion_votes x < count_list emotion_votes m"
       "\<forall>x\<in>set post. count_list emotion_votes x \<le> count_list emotion_votes m"
    by blast
  have s: "set order = set emotion_votes" using assms(1) by (simp add: set_order_def)
  have agg: "aggregate order emotion_votes = Inr (Some m)"
    using assms(2) h(1) by (simp add: aggregate_def)
  have mem: "m \<in> set emotion_votes" using h(2) s by (metis in_set_conv_decomp)
  have "\<forall>x\<in>set order. count_list emotion_votes x \<le> count_list emotion_votes m"
  proof
    fix x assume "x \<in> set order"
    then have "x \<in> set pre \<or> x = m \<or> x \<in> set post" using h(2) by auto
    then show "count_list emotion_votes x \<le> count_list emotion_votes m"
      using h(3,4) by (auto intro: less_imp_le)
  qed
  then have mx: "\<forall>x\<in>set emotion_votes. count_list emotion_votes x \<le> count_list emotion_votes m"
    using s by simp
  from agg h(2) mem mx h(3) show ?thesis by blast
qed

text \<open>
  C1, as the code has it. The vote returns a label of maximal count; among the labels
  tied for the maximum it returns the one that comes first in the iteration of the set
  of the votes, not the one that comes first in the votes: every label iterated before
  the result has a strictly smaller count. The result is a function of the votes and of
  that iteration order.
\<close>

theorem aggregate_first_in_set_order:
  assumes "set_order order emotion_votes" and "emotion_votes \<noteq> []"
  shows "\<exists>m pre post. aggregate order emotion_votes = Inr (Some m)
           \<and> order = pre @ m # post
           \<and> (\<forall>x\<in>set emotion_votes. count_list emotion_votes x \<le> count_list emotion_votes m)
           \<and> (\<forall>x\<in>set pre. count_list emotion_votes x < count_list emotion_votes m)"
  using aggregate_result [OF assms] by blast

theorem aggregate_first_in_set_order_witness:
  "set_order [''B'', ''A'', ''C''] [''A'', ''B'', ''C'', ''A'', ''B''] \<and>
   aggregate [''B'', ''A'', ''C''] [''A'', ''B'', ''C'', ''A'', ''B''] = Inr (Some ''B'')"
proof -
  have h: "set_order [''B'', ''A'', ''C''] [''A'', ''B'', ''C'', ''A'', ''B'']"
    by (auto simp: set_order_def)
  have ne: "[''A'', ''B'', ''C'', ''A'', ''B''] \<noteq> []" by simp
  from aggregate_first_in_set_order [OF h ne] h show ?thesis
    by (simp add: aggregate_def py_max_def)
qed

text \<open>
  C1, as the specification states it, fails: when the set of the votes
  \<^verbatim>\<open>[A, B, A, B]\<close> is iterated as \<^verbatim>\<open>B, A\<close>, the vote returns \<^verbatim>\<open>B\<close>, which is not the
  tied label that comes first in the votes.
\<close>

theorem aggregate_tie_counterexample:
  "set_order [''B'', ''A''] [''A'', ''B'', ''A'', ''B''] \<and>
   aggregate [''B'', ''A''] [''A'', ''B'', ''A'', ''B''] = Inr (Some ''B'') \<and>
   aggregate [''B'', ''A''] [''A'', ''B'', ''A'', ''B''] \<noteq> Inr (Some ''A'')"
  by (auto simp: set_order_def aggregate_def py_max_def)

text \<open>
  C8. For votes that are not empty, the vote returns a label that occurs among them;
  for a single vote it returns that vote.
\<close>

theorem aggregate_returns_a_vote:
  assumes "set_order order emotion_votes" and "emotion_votes \<noteq> []"
  shows "(\<exists>m. aggregate order emotion_votes = Inr (Some m) \<and> m \<in> set emotion_votes)
         \<and> (\<forall>v. emotion_votes = [v] \<longrightarrow> aggregate order emotion_votes = Inr (Some v))"
proof -
  from aggregate_result [OF assms] obtain m where
    m: "aggregate order emotion_votes = Inr (Some m)" "m \<in> set emotion_votes"
    by blast
  then have "\<forall>v. emotion_votes = [v] \<longrightarrow> aggregate order emotion_votes = Inr (Some v)"
    by auto
  with m show ?thesis by blast
qed

theorem aggregate_returns_a_vote_witness:
  "set_order [''sad''] [''sad''] \<and> aggregate [''sad''] [''sad''] = Inr (Some ''sad'')"
proof -
  have h: "set_order [''sad''] [''sad'']" by (simp add: set_order_def)
  have ne: "[''sad''] \<noteq> []" by simp
  from aggregate_returns_a_vote [OF h ne] h show ?thesis by simp
qed

subsection \<open>The turn after a detection without votes\<close>

lemma strip_digit:
  "strip ''1'' = ''1''" "strip ''2'' = ''2''" "strip ''3'' = ''3''" "strip ''4'' = ''4''"
  by (simp_all add: strip_def is_space_def)

text \<open>
  C7. For no votes the vote returns \<^verbatim>\<open>None\<close>, not a mood; and the caller takes
  \<^verbatim>\<open>None\<close> as a failed detection: the turn prints that no mood was detected, goes
  back to the menu and plays nothing (the log holds prints only), so no mood, neutral
  or other, is put in its place.
\<close>

theorem empty_votes_reprompt:
  assumes "capture_votes 12 (reads cap) [] = Inr []" and "strip choice_line = ''1''"
  shows "aggregate order [] = Inr None
         \<and> snd (detect_mood iter_set cap 12) = Inr None
         \<and> snd (acquire_mood console iter_set cap sentiment_polarity choice_line line) = Inr Continue
         \<and> (\<exists>l. loop_turn console iter_set cap sentiment_polarity spotify_controller fs mixer r
                    choice_line line play_line = (l, Inr True)
                \<and> \<not> list_ex backend_action l
                \<and> Print [S ''Could not detect mood from webcam.''] \<in> set l)"
proof -
  have a: "aggregate order [] = Inr None" for order by (simp add: aggregate_def)
  have d: "snd (detect_mood iter_set cap 12) = Inr None"
    using assms(1) by (simp add: detect_mood_def a)
  obtain l0 where l0: "detect_mood iter_set cap 12 = (l0, Inr None)"
      and q0: "\<not> list_ex backend_action l0"
    using assms(1) by (cases "isOpened cap") (auto simp: detect_mood_def a backend_action_def)
  have acq: "acquire_mood console iter_set cap sentiment_polarity choice_line line =
      (menu_lines @ Print [S ''Detecting mood from webcam... (look at camera)''] # l0
         @ [Print [S ''Could not detect mood from webcam.'']], Inr Continue)"
    using assms(2) by (simp add: acquire_mood_def webcam_choice_def l0)
  have turn: "loop_turn console iter_set cap sentiment_polarity spotify_controller fs mixer r
                    choice_line line play_line =
      (menu_lines @ Print [S ''Detecting mood from webcam... (look at camera)''] # l0
         @ [Print [S ''Could not detect mood from webcam.'']], Inr True)"
    by (simp add: loop_turn_def acq)
  have quiet: "\<not> list_ex backend_action
      (menu_lines @ Print [S ''Detecting mood from webcam... (look at camera)''] # l0
         @ [Print [S ''Could not detect mood from webcam.'']])"
    using q0 by (simp add: menu_lines_def backend_action_def)
  have c: "snd (acquire_mood console iter_set cap sentiment_polarity choice_line line) = Inr Continue"
    by (simp add: acq)
  from a d c turn quiet show ?thesis by auto
qed

theorem empty_votes_reprompt_witness:
  "capture_votes 12 (reads camera_without_face) [] = Inr []
   \<and> loop_turn cp1251 first_seen camera_without_face flat_polarity None fs_one_track working_mixer 0
        ''1'' [] [] =
       (menu_lines @ [Print [S ''Detecting mood from webcam... (look at camera)''],
                      Print [S ''Could not detect mood from webcam.'']], Inr True)"
proof -
  have h: "capture_votes 12 (reads camera_without_face) [] = Inr []"
    by (simp add: camera_without_face_def eval_nat_numeral)
  from empty_votes_reprompt [OF h strip_digit(1), where console = cp1251 and iter_set = first_seen
      and sentiment_polarity = flat_polarity and spotify_controller = None
      and fs = fs_one_track and mixer = working_mixer and r = 0 and line = "[]"
      and play_line = "[]" and order = "[]"] h
  show ?thesis
    by (simp add: loop_turn_def acquire_mood_def webcam_choice_def detect_mood_def
        camera_without_face_def strip_digit aggregate_def)
qed

subsection \<open>The mood of a text\<close>

text \<open>
  C2. A polarity above 0.3 gives happy, one below -0.3 gives sad, every other one
  gives neutral, the two thresholds included; the result is always one of the three,
  and the detector is this map applied to the polarity of the text.
\<close>

theorem polarity_mood_thresholds:
  "(0.3 < p \<longrightarrow> polarity_mood p = ''happy'')
   \<and> (p < - 0.3 \<longrightarrow> polarity_mood p = ''sad'')
   \<and> (- 0.3 \<le> p \<and> p \<le> 0.3 \<longrightarrow> polarity_mood p = ''neutral'')
   \<and> polarity_mood 0.3 = ''neutral''
   \<and> polarity_mood (- 0.3) = ''neutral''
   \<and> polarity_mood p \<in> {''happy'', ''sad'', ''neutral''}
   \<and> text_detect_mood sentiment_polarity text = polarity_mood (sentiment_polarity text)"
  by (simp add: polarity_mood_def text_detect_mood_def)

theorem polarity_mood_thresholds_witness:
  "polarity_mood (1 / 2) = ''happy'' \<and> polarity_mood (- 1) = ''sad''
   \<and> polarity_mood 0 = ''neutral'' \<and> polarity_mood 0.3 = ''neutral''"
  using polarity_mood_thresholds [of "1 / 2"] polarity_mood_thresholds [of "- 1"]
    polarity_mood_thresholds [of 0]
  by simp

subsection \<open>The mood typed in\<close>

lemma moods_set:
  "set (map fst MOOD_FOLDERS) =
     {''happy'', ''sad'', ''angry'', ''surprise'', ''neutral'', ''fear'', ''disgust''}"
  by (simp add: MOOD_FOLDERS_def)

lemma normalise_HAPPY: "lower (strip ''HAPPY '') = ''happy''"
  by (simp add: lower_def strip_def is_space_def lower_char_def is_upper_def)

lemma normalise_excited: "lower (strip ''excited'') = ''excited''"
  by (simp add: lower_def strip_def is_space_def lower_char_def is_upper_def)

text \<open>
  C6. The line typed is stripped and lowered; the choice gives that mood exactly when
  it is one of the seven keys of \<^verbatim>\<open>MOOD_FOLDERS\<close>, and otherwise prints that the mood
  was not recognized and goes back to the menu, the turn playing nothing.
  \<^verbatim>\<open>"HAPPY "\<close> gives happy and \<^verbatim>\<open>"excited"\<close> is rejected.
\<close>

theorem manual_choice_resolves:
  "snd (manual_choice line) =
     (if lower (strip line)
           \<in> {''happy'', ''sad'', ''angry'', ''surprise'', ''neutral'', ''fear'', ''disgust''}
      then Inr (Mood (lower (strip line))) else Inr Continue)
   \<and> (snd (manual_choice line) = Inr Continue
        \<longleftrightarrow> Print [S ''Mood not recognized. Try again.''] \<in> set (fst (manual_choice line)))
   \<and> acquire_mood console iter_set cap sentiment_polarity ''3'' line
        = (menu_lines @ fst (manual_choice line), snd (manual_choice line))
   \<and> (snd (manual_choice line) = Inr Continue \<longrightarrow>
        loop_turn console iter_set cap sentiment_polarity spotify_controller fs mixer r ''3'' line play_line
          = (menu_lines @ fst (manual_choice line), Inr True))
   \<and> snd (manual_choice ''HAPPY '') = Inr (Mood ''happy'')
   \<and> snd (manual_choice ''excited'') = Inr Continue"
proof -
  have a: "snd (manual_choice line) =
     (if lower (strip line)
           \<in> {''happy'', ''sad'', ''angry'', ''surprise'', ''neutral'', ''fear'', ''disgust''}
      then Inr (Mood (lower (strip line))) else Inr Continue)"
    unfolding manual_choice_def Let_def moods_set by simp
  have b: "snd (manual_choice line) = Inr Continue
        \<longleftrightarrow> Print [S ''Mood not recognized. Try again.''] \<in> set (fst (manual_choice line))"
    unfolding manual_choice_def Let_def by simp
  have c: "acquire_mood console iter_set cap sentiment_polarity ''3'' line
        = (menu_lines @ fst (manual_choice line), snd (manual_choice line))"
    by (simp add: acquire_mood_def strip_digit split: prod.splits)
  have d: "snd (manual_choice line) = Inr Continue \<longrightarrow>
        loop_turn console iter_set cap sentiment_polarity spotify_controller fs mixer r ''3'' line play_line
          = (menu_lines @ fst (manual_choice line), Inr True)"
    unfolding loop_turn_def c by simp
  have e: "snd (manual_choice ''HAPPY '') = Inr (Mood ''happy'')"
    unfolding manual_choice_def Let_def normalise_HAPPY moods_set by simp
  have f: "snd (manual_choice ''excited'') = Inr Continue"
    unfolding manual_choice_def Let_def normalise_excited moods_set by simp
  from a b c d e f show ?thesis by blast
qed

theorem manual_choice_resolves_witness:
  "snd (manual_choice ''excited'') = Inr Continue
   \<and> loop_turn cp1251 first_seen camera_without_face flat_polarity None fs_one_track working_mixer 0
        ''3'' ''excited'' [] = (menu_lines @ fst (manual_choice ''excited''), Inr True)"
proof -
  note t = manual_choice_resolves [where line = "''excited''" and console = cp1251 and iter_set = first_seen
      and cap = camera_without_face and sentiment_polarity = flat_polarity
      and spotify_controller = None and fs = fs_one_track and mixer = working_mixer
      and r = 0 and play_line = "[]"]
  from t have f: "snd (manual_choice ''excited'') = Inr Continue"
    by (elim conjE)
  from t have d: "snd (manual_choice ''excited'') = Inr Continue \<longrightarrow>
      loop_turn cp1251 first_seen camera_without_face flat_polarity None fs_one_track working_mixer 0
        ''3'' ''excited'' [] = (menu_lines @ fst (manual_choice ''excited''), Inr True)"
    by (elim conjE)
  from d f have "loop_turn cp1251 first_seen camera_without_face flat_polarity None fs_one_track
      working_mixer 0 ''3'' ''excited'' [] = (menu_lines @ fst (manual_choice ''excited''), Inr True)"
    by (rule mp)
  with f show ?thesis by (rule conjI)
qed

subsection \<open>The folders\<close>

text \<open>
  Making directories and writing a file keep the entries there are, add no second
  entry for a path, and make the path asked for exist.
\<close>

lemma map_of_append_keeps: "map_of fs q = Some n \<Longrightarrow> map_of (fs @ xs) q = Some n"
  by (simp add: map_add_Some_iff)

lemma make_dirs_keeps:
  "make_dirs fs pre cs = Inr fs' \<Longrightarrow> map_of fs q = Some n \<Longrightarrow> map_of fs' q = Some n"
proof (induction cs arbitrary: fs pre)
  case Nil
  then show ?case by simp
next
  case (Cons c cs)
  show ?case
  proof (cases "map_of fs (pre @ [c])")
    case None
    with Cons.prems(1) have "make_dirs (fs @ [(pre @ [c], Dir)]) (pre @ [c]) cs = Inr fs'"
      by (simp add: Let_def)
    moreover have "map_of (fs @ [(pre @ [c], Dir)]) q = Some n"
      using Cons.prems(2) by (rule map_of_append_keeps)
    ultimately show ?thesis by (rule Cons.IH)
  next
    case (Some nd)
    show ?thesis
    proof (cases nd)
      case Dir
      with Some Cons.prems(1) have "make_dirs fs (pre @ [c]) cs = Inr fs'" by (simp add: Let_def)
      then show ?thesis using Cons.prems(2) by (rule Cons.IH)
    next
      case (File x)
      with Some Cons.prems(1) show ?thesis by (simp add: Let_def)
    qed
  qed
qed

lemma make_dirs_exists:
  "make_dirs fs pre cs = Inr fs' \<Longrightarrow> cs \<noteq> [] \<Longrightarrow> map_of fs' (pre @ cs) = Some Dir"
proof (induction cs arbitrary: fs pre)
  case Nil
  then show ?case by simp
next
  case (Cons c cs)
  show ?case
  proof (cases "map_of fs (pre @ [c])")
    case None
    with Cons.prems(1) have m: "make_dirs (fs @ [(pre @ [c], Dir)]) (pre @ [c]) cs = Inr fs'"
      by (simp add: Let_def)
    show ?thesis
    proof (cases cs)
      case Nil
      with m None show ?thesis by (auto simp: map_add_def)
    next
      case (Cons d ds)
      with Cons.IH [OF m] show ?thesis by simp
    qed
  next
    case (Some nd)
    show ?thesis
    proof (cases nd)
      case Dir
      with Some Cons.prems(1) have m: "make_dirs fs (pre @ [c]) cs = Inr fs'" by (simp add: Let_def)
      show ?thesis
      proof (cases cs)
        case Nil
        with m Some Dir show ?thesis by simp
      next
        case (Cons d ds)
        with Cons.IH [OF m] show ?thesis by simp
      qed
    next
      case (File x)
      with Some Cons.prems(1) show ?thesis by (simp add: Let_def)
    qed
  qed
qed

lemma make_dirs_distinct:
  "make_dirs fs pre cs = Inr fs' \<Longrightarrow> distinct (map fst fs) \<Longrightarrow> distinct (map fst fs')"
proof (induction cs arbitrary: fs pre)
  case Nil
  then show ?case by simp
next
  case (Cons c cs)
  show ?case
  proof (cases "map_of fs (pre @ [c])")
    case None
    with Cons.prems(1) have m: "make_dirs (fs @ [(pre @ [c], Dir)]) (pre @ [c]) cs = Inr fs'"
      by (simp add: Let_def)
    have "pre @ [c] \<notin> fst ` set fs" using None by (simp add: map_of_eq_None_iff)
    then have "distinct (map fst (fs @ [(pre @ [c], Dir)]))"
      using Cons.prems(2) by simp
    with m show ?thesis by (rule Cons.IH)
  next
    case (Some nd)
    show ?thesis
    proof (cases nd)
      case Dir
      with Some Cons.prems(1) have "make_dirs fs (pre @ [c]) cs = Inr fs'" by (simp add: Let_def)
      then show ?thesis using Cons.prems(2) by (rule Cons.IH)
    next
      case (File x)
      with Some Cons.prems(1) show ?thesis by (simp add: Let_def)
    qed
  qed
qed

lemma Path_nonempty: "(mood, folder) \<in> set MOOD_FOLDERS \<Longrightarrow> Path folder \<noteq> []"
  by (auto simp: MOOD_FOLDERS_def Path_def)

lemma mkdir_exists: "mkdir fs p = Inr fs' \<Longrightarrow> p \<noteq> [] \<Longrightarrow> path_exists fs' p"
  using make_dirs_exists [of fs "[]" p fs'] by (simp add: mkdir_def path_exists_def)

lemma mkdir_keeps: "mkdir fs p = Inr fs' \<Longrightarrow> path_exists fs q \<Longrightarrow> path_exists fs' q"
  using make_dirs_keeps [of fs "[]" p fs' q] by (auto simp: mkdir_def path_exists_def)

lemma write_text_keeps: "write_text fs p d = Inr fs' \<Longrightarrow> path_exists fs q \<Longrightarrow> path_exists fs' q"
  by (auto simp: write_text_def path_exists_def update_conv' split: if_splits option.splits node.splits)

lemma write_text_distinct:
  "write_text fs p d = Inr fs' \<Longrightarrow> distinct (map fst fs) \<Longrightarrow> distinct (map fst fs')"
  by (auto simp: write_text_def distinct_update split: if_splits option.splits node.splits)

lemma ensure_folders_keeps:
  "ensure_folders items fs = Inr fs' \<Longrightarrow> path_exists fs q \<Longrightarrow> path_exists fs' q"
proof (induction items arbitrary: fs)
  case Nil
  then show ?case by simp
next
  case (Cons item items)
  obtain mood folder where item: "item = (mood, folder)" by (cases item)
  show ?case
  proof (cases "path_exists fs (Path folder)")
    case True
    with Cons.prems(1) item have "ensure_folders items fs = Inr fs'" by simp
    then show ?thesis using Cons.prems(2) by (rule Cons.IH)
  next
    case False
    with Cons.prems(1) item obtain fs1 fs2 where
      s: "mkdir fs (Path folder) = Inr fs1"
         "write_text fs1 (Path folder @ [''README.txt'']) (readme_text mood) = Inr fs2"
         "ensure_folders items fs2 = Inr fs'"
      by (auto simp: Let_def split: sum.splits)
    have "path_exists fs2 q"
      using s(2) mkdir_keeps [OF s(1) Cons.prems(2)] by (rule write_text_keeps)
    with s(3) show ?thesis by (rule Cons.IH)
  qed
qed

lemma ensure_folders_distinct:
  "ensure_folders items fs = Inr fs' \<Longrightarrow> distinct (map fst fs) \<Longrightarrow> distinct (map fst fs')"
proof (induction items arbitrary: fs)
  case Nil
  then show ?case by simp
next
  case (Cons item items)
  obtain mood folder where item: "item = (mood, folder)" by (cases item)
  show ?case
  proof (cases "path_exists fs (Path folder)")
    case True
    with Cons.prems(1) item have "ensure_folders items fs = Inr fs'" by simp
    then show ?thesis using Cons.prems(2) by (rule Cons.IH)
  next
    case False
    with Cons.prems(1) item obtain fs1 fs2 where
      s: "mkdir fs (Path folder) = Inr fs1"
         "write_text fs1 (Path folder @ [''README.txt'']) (readme_text mood) = Inr fs2"
         "ensure_folders items fs2 = Inr fs'"
      by (auto simp: Let_def split: sum.splits)
    have "distinct (map fst fs1)"
      using s(1) Cons.prems(2) unfolding mkdir_def by (rule make_dirs_distinct)
    with s(2) have "distinct (map fst fs2)" by (rule write_text_distinct)
    with s(3) show ?thesis by (rule Cons.IH)
  qed
qed

lemma ensure_folders_all_exist:
  "ensure_folders items fs = Inr fs' \<Longrightarrow> (mood, folder) \<in> set items
     \<Longrightarrow> Path folder \<noteq> [] \<Longrightarrow> path_exists fs' (Path folder)"
proof (induction items arbitrary: fs)
  case Nil
  then show ?case by simp
next
  case (Cons item items)
  obtain mood1 folder1 where item: "item = (mood1, folder1)" by (cases item)
  show ?case
  proof (cases "path_exists fs (Path folder1)")
    case True
    with Cons.prems(1) item have e: "ensure_folders items fs = Inr fs'" by simp
    show ?thesis
    proof (cases "(mood, folder) = item")
      case True
      with item \<open>path_exists fs (Path folder1)\<close> have "path_exists fs (Path folder)" by simp
      with e show ?thesis by (rule ensure_folders_keeps)
    next
      case False
      with Cons.prems(2) have "(mood, folder) \<in> set items" by simp
      with e show ?thesis using Cons.prems(3) by (rule Cons.IH)
    qed
  next
    case False
    with Cons.prems(1) item obtain fs1 fs2 where
      s: "mkdir fs (Path folder1) = Inr fs1"
         "write_text fs1 (Path folder1 @ [''README.txt'']) (readme_text mood1) = Inr fs2"
         "ensure_folders items fs2 = Inr fs'"
      by (auto simp: Let_def split: sum.splits)
    show ?thesis
    proof (cases "(mood, folder) = item")
      case True
      with item have f: "folder1 = folder" by simp
      have "path_exists fs1 (Path folder)"
        using s(1) Cons.prems(3) unfolding f by (rule mkdir_exists)
      with s(2) have "path_exists fs2 (Path folder)" by (rule write_text_keeps)
      with s(3) show ?thesis by (rule ensure_folders_keeps)
    next
      case False
      with Cons.prems(2) have "(mood, folder) \<in> set items" by simp
      with s(3) show ?thesis using Cons.prems(3) by (rule Cons.IH)
    qed
  qed
qed

lemma ensure_folders_noop:
  "\<forall>(mood, folder)\<in>set items. path_exists fs (Path folder) \<Longrightarrow> ensure_folders items fs = Inr fs"
  by (induction items) auto

lemma path_exists_append: "path_exists fs q \<Longrightarrow> path_exists (fs @ xs) q"
  by (auto simp: path_exists_def map_add_Some_iff)

text \<open>
  C9. After a first run that succeeded, and whatever was added since (every path that
  existed still exists), a second run succeeds and returns the file system as it found
  it: no directory is made again, no entry doubled, no file touched. The first run
  leaves every mood folder existing and, on a file system without doubled entries,
  doubles none.
\<close>

theorem ensure_music_folders_idempotent:
  assumes "ensure_music_folders fs = Inr fs1"
    and "\<forall>q. path_exists fs1 q \<longrightarrow> path_exists fs2 q"
  shows "ensure_music_folders fs2 = Inr fs2
         \<and> (\<forall>(mood, folder)\<in>set MOOD_FOLDERS. path_exists fs1 (Path folder))
         \<and> (distinct (map fst fs) \<longrightarrow> distinct (map fst fs1))"
proof -
  have a: "\<forall>(mood, folder)\<in>set MOOD_FOLDERS. path_exists fs1 (Path folder)"
    using assms(1) ensure_folders_all_exist [of MOOD_FOLDERS fs fs1] Path_nonempty
    unfolding ensure_music_folders_def by blast
  then have "\<forall>(mood, folder)\<in>set MOOD_FOLDERS. path_exists fs2 (Path folder)"
    using assms(2) by blast
  then have b: "ensure_music_folders fs2 = Inr fs2"
    unfolding ensure_music_folders_def by (rule ensure_folders_noop)
  have c: "distinct (map fst fs) \<longrightarrow> distinct (map fst fs1)"
    using assms(1) ensure_folders_distinct [of MOOD_FOLDERS fs fs1]
    unfolding ensure_music_folders_def by blast
  from a b c show ?thesis by blast
qed

theorem ensure_music_folders_idempotent_witness:
  "ensure_music_folders [] = Inr bootstrapped
   \<and> ensure_music_folders (bootstrapped @ [song]) = Inr (bootstrapped @ [song])
   \<and> distinct (map fst bootstrapped)"
proof -
  have first: "ensure_music_folders [] = Inr bootstrapped"
    by (simp add: ensure_music_folders_def bootstrapped_def MOOD_FOLDERS_def Path_def
        path_exists_def mkdir_def write_text_def is_dir_def readme_text_def Let_def)
  have later: "\<forall>q. path_exists bootstrapped q \<longrightarrow> path_exists (bootstrapped @ [song]) q"
    using path_exists_append by blast
  note t = ensure_music_folders_idempotent [OF first later]
  from t have second: "ensure_music_folders (bootstrapped @ [song]) = Inr (bootstrapped @ [song])"
    by (rule conjunct1)
  from t have "distinct (map fst ([]::filesystem)) \<longrightarrow> distinct (map fst bootstrapped)"
    by (rule conjunct2 [THEN conjunct2])
  then have third: "distinct (map fst bootstrapped)" by simp
  from first second third show ?thesis by (intro conjI)
qed

subsection \<open>Playback\<close>


















text \<open>
  C10. When the enumeration of the devices is not empty, the one request to start
  playback that \<^verbatim>\<open>start_playback_by_uri\<close> issues names the first device of the
  enumeration, with the playlist given: a start request is in the log exactly when it
  is that one.
\<close>

theorem start_playback_on_first_device:
  assumes "devices sp = Inr device_list" and "device_list \<noteq> []"
  shows "StartPlayback dev u res \<in> set (fst (start_playback_by_uri console sp playlist_uri))
           \<longleftrightarrow> dev = dev_id (hd device_list) \<and> u = playlist_uri
               \<and> res = start_playback sp (dev_id (hd device_list)) playlist_uri"
  using assms
  by (cases device_list)
    (auto simp: start_playback_by_uri_def Let_def say_def andthen_def split: option.splits)

theorem start_playback_on_first_device_witness:
  "StartPlayback ''d1'' ''spotify:playlist:1'' None
     \<in> set (fst (start_playback_by_uri cp1251 spotify_ready ''spotify:playlist:1''))
   \<and> StartPlayback ''d2'' ''spotify:playlist:1'' None
     \<notin> set (fst (start_playback_by_uri cp1251 spotify_ready ''spotify:playlist:1''))"
proof -
  have d: "devices spotify_ready =
      Inr [Device ''d1'' (Some ''Phone''), Device ''d2'' (Some ''Laptop'')]"
    by (simp add: spotify_ready_def)
  have ne: "[Device ''d1'' (Some ''Phone''), Device ''d2'' (Some ''Laptop'')] \<noteq> []" by simp
  have ok: "start_playback spotify_ready ''d1'' ''spotify:playlist:1'' = None"
    by (simp add: spotify_ready_def start_ok_def)
  from start_playback_on_first_device [OF d ne, of "''d1''" "''spotify:playlist:1''" None
      cp1251 "''spotify:playlist:1''"] ok
  have a: "StartPlayback ''d1'' ''spotify:playlist:1'' None
     \<in> set (fst (start_playback_by_uri cp1251 spotify_ready ''spotify:playlist:1''))"
    by simp
  from start_playback_on_first_device [OF d ne, of "''d2''" "''spotify:playlist:1''" None
      cp1251 "''spotify:playlist:1''"]
  have b: "StartPlayback ''d2'' ''spotify:playlist:1'' None
     \<notin> set (fst (start_playback_by_uri cp1251 spotify_ready ''spotify:playlist:1''))"
    by simp
  from a b show ?thesis by (rule conjI)
qed










end
